theory Spec2Isabelle
  imports Complex_Main "HOL-Library.Sublist"
begin

section \<open>Strings as Python handles them\<close>

text \<open>
  Parameter names are Python \<open>str\<close> values.  They are modelled as \<^typ>\<open>string\<close>, every
  character being read as a code point below 256 (checkpoint keys are ASCII in practice).
\<close>

text \<open>\<^verbatim>\<open>s.startswith(p)\<close>, the helper of the substring test.\<close>

fun starts_with :: "string \<Rightarrow> string \<Rightarrow> bool" where
  "starts_with [] s = True"
| "starts_with (p # ps) [] = False"
| "starts_with (p # ps) (c # cs) = (p = c \<and> starts_with ps cs)"

text \<open>\<^verbatim>\<open>p in s\<close> on strings: \<open>p\<close> occurs in \<open>s\<close> as a contiguous substring.\<close>

fun str_contains :: "string \<Rightarrow> string \<Rightarrow> bool" where
  "str_contains p [] = (p = [])"
| "str_contains p (c # cs) = (starts_with p (c # cs) \<or> str_contains p cs)"

text \<open>\<^verbatim>\<open>s.split(sep)\<close> with a one-character separator: empty fields are kept.\<close>

fun split_on :: "char \<Rightarrow> string \<Rightarrow> string list" where
  "split_on sep [] = [[]]"
| "split_on sep (c # cs) =
     (if c = sep then [] # split_on sep cs
      else (case split_on sep cs of
              [] \<Rightarrow> [[c]]
            | part # parts \<Rightarrow> (c # part) # parts))"

text \<open>\<^verbatim>\<open>s.lower()\<close> on code points below 256.\<close>

definition upper_chars :: string where
  "upper_chars = ''ABCDEFGHIJKLMNOPQRSTUVWXYZ'' @
     [CHR 0xC0, CHR 0xC1, CHR 0xC2, CHR 0xC3, CHR 0xC4, CHR 0xC5, CHR 0xC6, CHR 0xC7, CHR 0xC8, CHR 0xC9, CHR 0xCA, CHR 0xCB, CHR 0xCC, CHR 0xCD, CHR 0xCE, CHR 0xCF, CHR 0xD0, CHR 0xD1, CHR 0xD2, CHR 0xD3, CHR 0xD4, CHR 0xD5, CHR 0xD6, CHR 0xD8, CHR 0xD9, CHR 0xDA, CHR 0xDB, CHR 0xDC, CHR 0xDD, CHR 0xDE]"

definition lower_chars :: string where
  "lower_chars = ''abcdefghijklmnopqrstuvwxyz'' @
     [CHR 0xE0, CHR 0xE1, CHR 0xE2, CHR 0xE3, CHR 0xE4, CHR 0xE5, CHR 0xE6, CHR 0xE7, CHR 0xE8, CHR 0xE9, CHR 0xEA, CHR 0xEB, CHR 0xEC, CHR 0xED, CHR 0xEE, CHR 0xEF, CHR 0xF0, CHR 0xF1, CHR 0xF2, CHR 0xF3, CHR 0xF4, CHR 0xF5, CHR 0xF6, CHR 0xF8, CHR 0xF9, CHR 0xFA, CHR 0xFB, CHR 0xFC, CHR 0xFD, CHR 0xFE]"

definition lower_char :: "char \<Rightarrow> char" where
  "lower_char c = (case map_of (zip upper_chars lower_chars) c of None \<Rightarrow> c | Some l \<Rightarrow> l)"

definition lower :: "string \<Rightarrow> string" where
  "lower s = map lower_char s"

text \<open>
  \<^verbatim>\<open>int(s)\<close> in base ten: optional surrounding whitespace, an optional sign, then decimal
  digits with single underscores allowed between two digits.  \<open>None\<close> stands for the
  \<^verbatim>\<open>ValueError\<close> that the source catches.  Below 256 the decimal digits are \<^verbatim>\<open>0\<close> to
  \<^verbatim>\<open>9\<close>, and the characters that \<^verbatim>\<open>int\<close> strips are the eight of \<open>int_space\<close>.

  \<^verbatim>\<open>int\<close> also raises \<^verbatim>\<open>ValueError\<close> when the literal has more digits than
  \<^verbatim>\<open>sys.get_int_max_str_digits()\<close>, which is 4300 unless the interpreter is configured
  otherwise (the module does not configure it).  Leading zeros are counted; the sign,
  the underscores and the surrounding whitespace are not.
\<close>

definition int_max_str_digits :: nat where
  "int_max_str_digits = 4300"

definition int_space :: "char \<Rightarrow> bool" where
  "int_space c =
     (c \<in> set [CHR 0x09, CHR 0x0A, CHR 0x0B, CHR 0x0C, CHR 0x0D, CHR 0x20, CHR 0x85, CHR 0xA0])"

definition is_digit :: "char \<Rightarrow> bool" where
  "is_digit c = (c \<in> set ''0123456789'')"

definition digit_val :: "char \<Rightarrow> int" where
  "digit_val c = int (of_char c) - 48"

fun digits_value :: "int \<Rightarrow> string \<Rightarrow> int option" where
  "digits_value acc [] = Some acc"
| "digits_value acc [c] = (if is_digit c then Some (10 * acc + digit_val c) else None)"
| "digits_value acc (c # d # cs) =
     (if is_digit c then digits_value (10 * acc + digit_val c) (d # cs)
      else if c = CHR ''_'' \<and> is_digit d then digits_value acc (d # cs)
      else None)"

fun int_body :: "string \<Rightarrow> int option" where
  "int_body [] = None"
| "int_body (c # cs) =
     (if int_max_str_digits < length (filter is_digit (c # cs)) then None
      else if is_digit c then digits_value (digit_val c) cs
      else None)"

definition strip_space :: "string \<Rightarrow> string" where
  "strip_space s = rev (dropWhile int_space (rev (dropWhile int_space s)))"

definition py_int :: "string \<Rightarrow> int option" where
  "py_int s =
     (case strip_space s of
        [] \<Rightarrow> None
      | c # cs \<Rightarrow>
          if c = CHR ''-'' then map_option uminus (int_body cs)
          else if c = CHR ''+'' then int_body cs
          else int_body (c # cs))"

section \<open>Checkpoint tables and the errors of the module\<close>

text \<open>
  \<^verbatim>\<open>tensor.shape\<close> is a tuple of non-negative integers; only the shapes of the tensors
  are read by the inspection.  A state dict is an insertion-ordered dictionary: an
  association list in iteration order.
\<close>

type_synonym shape = "nat list"
type_synonym state_dict = "(string \<times> shape) list"

datatype scalar = EmbedDim | NumLayers | NumHeads

text \<open>
  \<open>CheckpointLoadError\<close> is the \<^verbatim>\<open>FileNotFoundError\<close> raised when \<^verbatim>\<open>load_file\<close> fails (and
  any exception of the weight loading), \<open>ArchitectureInferenceError x\<close> the
  \<^verbatim>\<open>ValueError("Could not determine x from checkpoint")\<close>, \<open>ShapeUnpackError\<close> the
  \<^verbatim>\<open>ValueError\<close> of unpacking a shape that has not exactly two dimensions,
  \<open>EncoderConstructionError\<close> any exception of the constructor \<^verbatim>\<open>ProtX(...)\<close>, and
  \<open>RangeStepError\<close> the \<^verbatim>\<open>ValueError\<close> of \<^verbatim>\<open>range\<close> with step zero.
\<close>

datatype error =
    CheckpointLoadError
  | ArchitectureInferenceError scalar
  | ShapeUnpackError
  | EncoderConstructionError
  | RangeStepError

text \<open>\<^verbatim>\<open>a, b = tensor.shape\<close>\<close>

fun unpack2 :: "shape \<Rightarrow> (nat \<times> nat) option" where
  "unpack2 [a, b] = Some (a, b)"
| "unpack2 _ = None"

section \<open>\<^verbatim>\<open>inspect_checkpoint_architecture\<close>\<close>

text \<open>
  Lines 211--220: the first entry whose key matches one of the three patterns decides
  \<open>embed_dim\<close>; the loop ends there.  \<open>Inr None\<close>: \<open>embed_dim\<close> is still \<^verbatim>\<open>None\<close> after the
  loop.
\<close>

fun find_embed_dim :: "state_dict \<Rightarrow> error + nat option" where
  "find_embed_dim [] = Inr None"
| "find_embed_dim ((key, shp) # rest) =
     (if str_contains ''embeddings.tok_embeddings.weight'' key then
        (case unpack2 shp of
           None \<Rightarrow> Inl ShapeUnpackError
         | Some (vocab_size, embed_dim) \<Rightarrow> Inr (Some embed_dim))
      else if str_contains ''model.layers.0.attn.Wo.weight'' key then
        (case unpack2 shp of
           None \<Rightarrow> Inl ShapeUnpackError
         | Some (embed_dim, _) \<Rightarrow> Inr (Some embed_dim))
      else if str_contains ''model.layers.0.mlp.Wi.weight'' key then
        (case unpack2 shp of
           None \<Rightarrow> Inl ShapeUnpackError
         | Some (_, embed_dim) \<Rightarrow> Inr (Some embed_dim))
      else find_embed_dim rest)"

text \<open>
  Lines 231--237: the loop over \<^verbatim>\<open>enumerate(parts)\<close>.  A part equal to \<^verbatim>\<open>layers\<close> that has a
  successor adds \<^verbatim>\<open>int(successor)\<close> to the set, unless \<^verbatim>\<open>int\<close> raises.
\<close>

fun scan_parts :: "string list \<Rightarrow> int set \<Rightarrow> int set" where
  "scan_parts (part # nxt # rest) layer_indices =
     scan_parts (nxt # rest)
       (if part = ''layers'' then
          (case py_int nxt of
             None \<Rightarrow> layer_indices
           | Some layer_idx \<Rightarrow> insert layer_idx layer_indices)
        else layer_indices)"
| "scan_parts parts layer_indices = layer_indices"

text \<open>Lines 227--237: the loop over the keys.\<close>

fun scan_keys :: "string list \<Rightarrow> int set \<Rightarrow> int set" where
  "scan_keys [] layer_indices = layer_indices"
| "scan_keys (key # keys) layer_indices =
     scan_keys keys
       (if str_contains ''model.layers.'' key
        then scan_parts (split_on CHR ''.'' key) layer_indices
        else layer_indices)"

definition layer_indices :: "state_dict \<Rightarrow> int set" where
  "layer_indices state_dict = scan_keys (map fst state_dict) {}"

text \<open>Lines 260--263: the first of the common head counts that divides \<open>embed_dim\<close>.\<close>

fun first_possible_heads :: "nat list \<Rightarrow> nat \<Rightarrow> nat option" where
  "first_possible_heads [] embed_dim = None"
| "first_possible_heads (possible_heads # more) embed_dim =
     (if embed_dim mod possible_heads = 0 then Some possible_heads
      else first_possible_heads more embed_dim)"

text \<open>Lines 252--263.\<close>

definition heads_of_embed_dim :: "nat \<Rightarrow> nat option" where
  "heads_of_embed_dim embed_dim =
     (if embed_dim mod 64 = 0 then Some (embed_dim div 64)
      else if embed_dim mod 32 = 0 then Some (embed_dim div 32)
      else if embed_dim mod 128 = 0 then Some (embed_dim div 128)
      else first_possible_heads [8, 12, 16, 20, 24, 32] embed_dim)"

text \<open>
  Lines 245--264: only the first entry whose key contains the \<^verbatim>\<open>Wqkv\<close> pattern is looked
  at; the \<^verbatim>\<open>break\<close> of line 264 ends the loop whatever the shape test gave.
\<close>

fun num_heads_from_Wqkv :: "nat \<Rightarrow> state_dict \<Rightarrow> error + nat option" where
  "num_heads_from_Wqkv embed_dim [] = Inr None"
| "num_heads_from_Wqkv embed_dim ((key, shp) # rest) =
     (if str_contains ''model.layers.0.attn.Wqkv.weight'' key then
        (case unpack2 shp of
           None \<Rightarrow> Inl ShapeUnpackError
         | Some (qkv_dim, model_dim) \<Rightarrow>
             Inr (if qkv_dim = 3 * embed_dim then heads_of_embed_dim embed_dim else None))
      else num_heads_from_Wqkv embed_dim rest)"

text \<open>Lines 275--278.\<close>

fun first_head_dim :: "nat list \<Rightarrow> nat \<Rightarrow> nat option" where
  "first_head_dim [] out_dim = None"
| "first_head_dim (head_dim # more) out_dim =
     (if out_dim mod head_dim = 0 then Some (out_dim div head_dim)
      else first_head_dim more out_dim)"

text \<open>Lines 268--279: the fallback, run only when \<open>num_heads\<close> is still \<^verbatim>\<open>None\<close>.\<close>

fun num_heads_from_query :: "nat \<Rightarrow> state_dict \<Rightarrow> nat option" where
  "num_heads_from_query embed_dim [] = None"
| "num_heads_from_query embed_dim ((key, shp) # rest) =
     (if str_contains ''query'' (lower key) \<and> str_contains ''weight'' key
         \<and> str_contains ''layers.0'' key then
        (case unpack2 shp of
           None \<Rightarrow> None
         | Some (out_dim, in_dim) \<Rightarrow>
             if in_dim = embed_dim then first_head_dim [32, 64, 128] out_dim else None)
      else num_heads_from_query embed_dim rest)"

text \<open>Lines 205--284, on the loaded state dict.\<close>

definition inspect_state_dict :: "state_dict \<Rightarrow> error + (nat \<times> nat \<times> nat)" where
  "inspect_state_dict state_dict =
     (case find_embed_dim state_dict of
        Inl err \<Rightarrow> Inl err
      | Inr None \<Rightarrow> Inl (ArchitectureInferenceError EmbedDim)
      | Inr (Some embed_dim) \<Rightarrow>
          (let num_layers = card (layer_indices state_dict)
           in if num_layers = 0 then Inl (ArchitectureInferenceError NumLayers)
              else
                (case num_heads_from_Wqkv embed_dim state_dict of
                   Inl err \<Rightarrow> Inl err
                 | Inr primary \<Rightarrow>
                     (case (case primary of
                              Some num_heads \<Rightarrow> Some num_heads
                            | None \<Rightarrow> num_heads_from_query embed_dim state_dict) of
                        None \<Rightarrow> Inl (ArchitectureInferenceError NumHeads)
                      | Some num_heads \<Rightarrow> Inr (embed_dim, num_layers, num_heads)))))"

text \<open>
  Lines 199--203: \<^verbatim>\<open>load_file\<close> is the file system, a partial map from paths to state
  dicts; a path it does not map raises.
\<close>

definition inspect_checkpoint_architecture ::
  "(string \<rightharpoonup> state_dict) \<Rightarrow> string \<Rightarrow> error + (nat \<times> nat \<times> nat)" where
  "inspect_checkpoint_architecture load_file checkpoint_path =
     (case load_file checkpoint_path of
        None \<Rightarrow> Inl CheckpointLoadError
      | Some state_dict \<Rightarrow> inspect_state_dict state_dict)"

section \<open>Tensors\<close>

text \<open>
  A tensor is its shape and its entries.  Hidden states are floating-point tensors; their
  arithmetic is idealised to \<^typ>\<open>real\<close>.  Token ids and the attention mask are integer
  tensors.
\<close>

record tensor3 =
  dim0 :: nat
  dim1 :: nat
  dim2 :: nat
  at3 :: "nat \<Rightarrow> nat \<Rightarrow> nat \<Rightarrow> real"

record tensor2 =
  rows2 :: nat
  cols2 :: nat
  at2 :: "nat \<Rightarrow> nat \<Rightarrow> real"

record itensor2 =
  irows :: nat
  icols :: nat
  iat :: "nat \<Rightarrow> nat \<Rightarrow> int"

text \<open>\<^verbatim>\<open>embeddings[:, :-1, :]\<close>: the stop index \<open>-1\<close> of an axis of length \<open>n\<close> is \<open>n - 1\<close>, and
  \<open>0\<close> when the axis is empty.\<close>

definition drop_last3 :: "tensor3 \<Rightarrow> tensor3" where
  "drop_last3 t = t\<lparr>dim1 := dim1 t - 1\<rparr>"

text \<open>\<^verbatim>\<open>attention_mask[:, :-1]\<close>\<close>

definition drop_last2 :: "itensor2 \<Rightarrow> itensor2" where
  "drop_last2 m = m\<lparr>icols := icols m - 1\<rparr>"

text \<open>\<^verbatim>\<open>mask.unsqueeze(-1).expand(like.size()).float()\<close>\<close>

definition expand_float :: "itensor2 \<Rightarrow> tensor3 \<Rightarrow> tensor3" where
  "expand_float m like =
     \<lparr>dim0 = dim0 like, dim1 = dim1 like, dim2 = dim2 like,
      at3 = (\<lambda>b t e. real_of_int (iat m b t))\<rparr>"

text \<open>\<^verbatim>\<open>x * y\<close> on tensors of one shape.\<close>

definition mul3 :: "tensor3 \<Rightarrow> tensor3 \<Rightarrow> tensor3" where
  "mul3 x y = x\<lparr>at3 := (\<lambda>b t e. at3 x b t e * at3 y b t e)\<rparr>"

text \<open>\<^verbatim>\<open>torch.sum(x, dim=1)\<close>\<close>

definition sum_dim1 :: "tensor3 \<Rightarrow> tensor2" where
  "sum_dim1 x =
     \<lparr>rows2 = dim0 x, cols2 = dim2 x, at2 = (\<lambda>b e. \<Sum>t < dim1 x. at3 x b t e)\<rparr>"

text \<open>\<^verbatim>\<open>torch.clamp(x, min=c)\<close>\<close>

definition clamp_min :: "tensor2 \<Rightarrow> real \<Rightarrow> tensor2" where
  "clamp_min x c = x\<lparr>at2 := (\<lambda>b e. max c (at2 x b e))\<rparr>"

text \<open>\<^verbatim>\<open>x / y\<close> on tensors of one shape.\<close>

definition div2 :: "tensor2 \<Rightarrow> tensor2 \<Rightarrow> tensor2" where
  "div2 x y = x\<lparr>at2 := (\<lambda>b e. at2 x b e / at2 y b e)\<rparr>"

text \<open>Iterating a two-dimensional tensor gives its rows.\<close>

definition rows_of :: "tensor2 \<Rightarrow> real list list" where
  "rows_of x = map (\<lambda>b. map (at2 x b) [0..<cols2 x]) [0..<rows2 x]"

text \<open>\<^verbatim>\<open>seq_mask.sum().item()\<close> for row \<open>b\<close> of the mask.\<close>

definition mask_sum :: "itensor2 \<Rightarrow> nat \<Rightarrow> int" where
  "mask_sum m b = (\<Sum>t < icols m. iat m b t)"

text \<open>The stop position of the slice \<^verbatim>\<open>x[:n]\<close> on an axis of length \<open>len\<close>.\<close>

definition slice_stop :: "nat \<Rightarrow> int \<Rightarrow> nat" where
  "slice_stop len n = (if n < 0 then nat (int len + n) else min len (nat n))"

section \<open>Embedding extraction\<close>

datatype embedding = Pooled "real list" | PerToken "real list list"

text \<open>Lines 165--172.\<close>

definition mean_pooled :: "tensor3 \<Rightarrow> itensor2 \<Rightarrow> tensor2" where
  "mean_pooled embeddings attn_mask =
     (let embeddings_no_eos = drop_last3 embeddings;
          mask_no_eos = drop_last2 attn_mask;
          mask_expanded = expand_float mask_no_eos embeddings_no_eos;
          masked_embeddings = mul3 embeddings_no_eos mask_expanded;
          summed = sum_dim1 masked_embeddings;
          summed_mask = clamp_min (sum_dim1 mask_expanded) (1 / 10 ^ 9)
      in div2 summed summed_mask)"

text \<open>Lines 181--182 for row \<open>b\<close>: \<^verbatim>\<open>seq_embeddings[:actual_length]\<close>, as a list of rows.\<close>

definition actual_length :: "itensor2 \<Rightarrow> nat \<Rightarrow> int" where
  "actual_length attn_mask b = mask_sum attn_mask b - 1"

definition token_rows :: "tensor3 \<Rightarrow> itensor2 \<Rightarrow> nat \<Rightarrow> real list list" where
  "token_rows embeddings attn_mask b =
     map (\<lambda>t. map (at3 embeddings b t) [0..<dim2 embeddings])
       [0..<slice_stop (dim1 embeddings) (actual_length attn_mask b)]"

text \<open>Lines 162--182: what one batch yields.  \<^verbatim>\<open>zip\<close> stops at its shortest argument.\<close>

definition extract_batch ::
  "bool \<Rightarrow> string list \<Rightarrow> tensor3 \<Rightarrow> itensor2 \<Rightarrow> (string \<times> embedding) list" where
  "extract_batch per_seq_embeddings batch_sequences embeddings attn_mask =
     (if per_seq_embeddings then
        zip batch_sequences (map Pooled (rows_of (mean_pooled embeddings attn_mask)))
      else
        zip batch_sequences
          (map (\<lambda>b. PerToken (token_rows embeddings attn_mask b))
             [0..<min (dim0 embeddings) (irows attn_mask)]))"

section \<open>\<^verbatim>\<open>load_and_generate_embeddings\<close>\<close>

text \<open>
  The collaborators of the generator, which are not code of the module: the file system
  behind \<^verbatim>\<open>load_file\<close>, the constructor of the encoder (\<open>None\<close>: it raises), the weight
  loading (\<open>None\<close>: it raises), the tokenizer, which returns the token ids and the
  attention mask of a batch, and the forward pass, which returns the last hidden state.
  Device placement is left out.
\<close>

record tokenized =
  input_ids :: itensor2
  attention_mask :: itensor2

record 'm collaborators =
  load_file :: "string \<rightharpoonup> state_dict"
  ProtX_init :: "nat \<Rightarrow> nat \<Rightarrow> nat \<Rightarrow> string \<Rightarrow> 'm option"
  load_state_dict :: "'m \<Rightarrow> state_dict \<Rightarrow> 'm option"
  batch_encode_plus :: "'m \<Rightarrow> string list \<Rightarrow> int \<Rightarrow> tokenized"
  forward :: "'m \<Rightarrow> itensor2 \<Rightarrow> itensor2 \<Rightarrow> tensor3"

datatype message =
    Detected nat nat nat
  | ErrorDetecting error
  | Loaded string
  | ErrorLoading

text \<open>
  What a caller who exhausts the generator observes: the pairs yielded, the lines
  printed, and the exception that ended the iteration, if one did.
\<close>

record outcome =
  yielded :: "(string \<times> embedding) list"
  printed :: "message list"
  raised :: "error option"

text \<open>Lines 136--137: the slices \<^verbatim>\<open>sequences[i:i + batch_size]\<close> for \<open>i\<close> in
  \<^verbatim>\<open>range(0, len(sequences), batch_size)\<close>, from position \<open>i\<close> on, for a positive step.\<close>

function batches :: "nat \<Rightarrow> string list \<Rightarrow> nat \<Rightarrow> string list list" where
  "batches batch_size sequences i =
     (if batch_size = 0 \<or> length sequences \<le> i then []
      else take batch_size (drop i sequences) # batches batch_size sequences (i + batch_size))"
  by pat_completeness auto
termination
  by (relation "measure (\<lambda>(batch_size, sequences, i). length sequences - i)") auto

text \<open>Lines 139--182 for one batch.\<close>

definition process_batch ::
  "'m collaborators \<Rightarrow> 'm \<Rightarrow> int \<Rightarrow> bool \<Rightarrow> string list \<Rightarrow> (string \<times> embedding) list" where
  "process_batch env model max_length per_seq_embeddings batch_sequences =
     (let tokenized = batch_encode_plus env model batch_sequences max_length;
          embeddings = forward env model (input_ids tokenized) (attention_mask tokenized)
      in extract_batch per_seq_embeddings batch_sequences embeddings
           (attention_mask tokenized))"

text \<open>Lines 101--182.  A step of zero makes \<^verbatim>\<open>range\<close> raise; a negative step gives an empty
  range.\<close>

definition load_and_generate_embeddings ::
  "'m collaborators \<Rightarrow> string \<Rightarrow> string list \<Rightarrow> int \<Rightarrow> int \<Rightarrow> bool \<Rightarrow> string \<Rightarrow> outcome" where
  "load_and_generate_embeddings env checkpoint_path sequences batch_size max_length
       per_seq_embeddings mlp_activation =
     (case inspect_checkpoint_architecture (load_file env) checkpoint_path of
        Inl e \<Rightarrow> \<lparr>yielded = [], printed = [ErrorDetecting e], raised = None\<rparr>
      | Inr (embed_dim, num_layers, num_heads) \<Rightarrow>
          (case ProtX_init env embed_dim num_layers num_heads mlp_activation of
             None \<Rightarrow>
               \<lparr>yielded = [], printed = [Detected embed_dim num_layers num_heads],
                raised = Some EncoderConstructionError\<rparr>
           | Some model \<Rightarrow>
               (case Option.bind (load_file env checkpoint_path) (load_state_dict env model) of
                  None \<Rightarrow>
                    \<lparr>yielded = [],
                     printed = [Detected embed_dim num_layers num_heads, ErrorLoading],
                     raised = None\<rparr>
                | Some loaded \<Rightarrow>
                    \<lparr>yielded =
                       (if batch_size \<le> 0 then []
                        else concat (map (process_batch env loaded max_length per_seq_embeddings)
                                      (batches (nat batch_size) sequences 0))),
                     printed = [Detected embed_dim num_layers num_heads, Loaded checkpoint_path],
                     raised = (if batch_size = 0 then Some RangeStepError else None)\<rparr>)))"

section \<open>The claims' own words, and example inputs\<close>

text \<open>
  The layer indices as a set comprehension: the integers that \<^verbatim>\<open>int\<close> reads from the part
  that follows a part \<^verbatim>\<open>layers\<close>, in the keys that contain \<^verbatim>\<open>model.layers.\<close>.
\<close>

definition indices_after_layers :: "state_dict \<Rightarrow> int set" where
  "indices_after_layers state_dict =
     {layer_idx. \<exists>key \<in> fst ` set state_dict. str_contains ''model.layers.'' key \<and>
        (\<exists>n. Suc n < length (split_on CHR ''.'' key) \<and>
           split_on CHR ''.'' key ! n = ''layers'' \<and>
           py_int (split_on CHR ''.'' key ! Suc n) = Some layer_idx)}"

text \<open>The same set restricted to the non-negative indices.\<close>

definition nonneg_indices_after_layers :: "state_dict \<Rightarrow> int set" where
  "nonneg_indices_after_layers state_dict = {i \<in> indices_after_layers state_dict. 0 \<le> i}"

text \<open>The three key patterns of the \<open>embed_dim\<close> loop, and the pattern of the \<^verbatim>\<open>Wqkv\<close> loop.\<close>

definition embed_dim_key :: "string \<times> shape \<Rightarrow> bool" where
  "embed_dim_key entry =
     (str_contains ''embeddings.tok_embeddings.weight'' (fst entry)
      \<or> str_contains ''model.layers.0.attn.Wo.weight'' (fst entry)
      \<or> str_contains ''model.layers.0.mlp.Wi.weight'' (fst entry))"

definition Wqkv_key :: "string \<times> shape \<Rightarrow> bool" where
  "Wqkv_key entry = str_contains ''model.layers.0.attn.Wqkv.weight'' (fst entry)"

text \<open>A checkpoint of width 768 with four layers.\<close>

definition four_layer_table :: state_dict where
  "four_layer_table =
     [(''model.embeddings.tok_embeddings.weight'', [30, 768]),
      (''model.layers.0.attn.Wqkv.weight'', [2304, 768]),
      (''model.layers.1.attn.Wqkv.weight'', [2304, 768]),
      (''model.layers.2.attn.Wqkv.weight'', [2304, 768]),
      (''model.layers.3.attn.Wqkv.weight'', [2304, 768])]"

text \<open>A checkpoint of width 100 whose layer indices are 0 and 2, with a malformed index
  segment in one more key.\<close>

definition sparse_table :: state_dict where
  "sparse_table =
     [(''model.embeddings.tok_embeddings.weight'', [30, 100]),
      (''model.layers.0.attn.Wqkv.weight'', [300, 100]),
      (''model.layers.2.attn.Wqkv.weight'', [300, 100]),
      (''model.layers.x.attn.Wqkv.weight'', [300, 100])]"

text \<open>A table with two keys that contain the \<^verbatim>\<open>Wqkv\<close> pattern; the first has another width.\<close>

definition two_Wqkv_table :: state_dict where
  "two_Wqkv_table =
     [(''model.embeddings.tok_embeddings.weight'', [30, 768]),
      (''aux.model.layers.0.attn.Wqkv.weight'', [1536, 512]),
      (''model.layers.0.attn.Wqkv.weight'', [2304, 768])]"

text \<open>A table in which an attention output weight precedes the token embedding.\<close>

definition Wo_first_table :: state_dict where
  "Wo_first_table =
     [(''model.layers.0.attn.Wo.weight'', [64, 64]),
      (''model.embeddings.tok_embeddings.weight'', [30, 128]),
      (''model.layers.0.attn.Wqkv.weight'', [192, 64])]"

text \<open>A checkpoint of width 64 with a single layer.\<close>

definition one_layer_table :: state_dict where
  "one_layer_table =
     [(''model.embeddings.tok_embeddings.weight'', [30, 64]),
      (''model.layers.0.attn.Wqkv.weight'', [192, 64])]"

text \<open>A table with a negative layer index.\<close>

definition negative_index_table :: state_dict where
  "negative_index_table =
     [(''model.embeddings.tok_embeddings.weight'', [30, 64]),
      (''model.layers.0.attn.Wqkv.weight'', [192, 64]),
      (''model.layers.-1.attn.Wqkv.weight'', [192, 64])]"

text \<open>A table without any layer key.\<close>

definition no_layer_table :: state_dict where
  "no_layer_table = [(''model.embeddings.tok_embeddings.weight'', [30, 64])]"




text \<open>A table with separate query weights only: width 100, query output dimension 96.\<close>

definition query_only_table :: state_dict where
  "query_only_table =
     [(''model.embeddings.tok_embeddings.weight'', [30, 100]),
      (''model.layers.0.attn.query.weight'', [96, 100])]"

text \<open>The rules of the primary stage as the claim lists them: the first satisfied one, in
  this order.\<close>

definition first_satisfied_rule :: "nat \<Rightarrow> nat option" where
  "first_satisfied_rule embed_dim =
     (if embed_dim mod 64 = 0 then Some (embed_dim div 64)
      else if embed_dim mod 32 = 0 then Some (embed_dim div 32)
      else if embed_dim mod 128 = 0 then Some (embed_dim div 128)
      else find (\<lambda>candidate. embed_dim mod candidate = 0) [8, 12, 16, 20, 24, 32])"

text \<open>A checkpoint of width 96 with a single layer.\<close>

definition width_96_table :: state_dict where
  "width_96_table =
     [(''model.embeddings.tok_embeddings.weight'', [30, 96]),
      (''model.layers.0.attn.Wqkv.weight'', [288, 96])]"

text \<open>A table in which the token embedding is the first entry that matches a rule of the
  \<open>embed_dim\<close> loop, with entries matching other rules after it.\<close>

definition tok_first_table :: state_dict where
  "tok_first_table =
     [(''proj.weight'', [1024, 128]),
      (''model.embeddings.tok_embeddings.weight'', [30, 128]),
      (''model.layers.0.attn.Wo.weight'', [64, 64]),
      (''model.layers.0.attn.Wqkv.weight'', [384, 128])]"


text \<open>
  Example collaborators.  The tokenizer appends the end-of-sequence marker (id 1) to every
  sequence and pads on the right (id 0) to the longest sequence of the batch; it does not
  truncate.  The encoder has width 2.
\<close>

definition example_batch_encode_plus :: "unit \<Rightarrow> string list \<Rightarrow> int \<Rightarrow> tokenized" where
  "example_batch_encode_plus model batch max_length =
     (let width = Suc (foldr (\<lambda>s. max (length s)) batch 0) in
      \<lparr>input_ids =
         \<lparr>irows = length batch, icols = width,
          iat = (\<lambda>b t. if t < length (batch ! b) then int (of_char (batch ! b ! t))
                       else if t = length (batch ! b) then 1 else 0)\<rparr>,
       attention_mask =
         \<lparr>irows = length batch, icols = width,
          iat = (\<lambda>b t. if t \<le> length (batch ! b) then 1 else 0)\<rparr>\<rparr>)"

definition example_forward :: "unit \<Rightarrow> itensor2 \<Rightarrow> itensor2 \<Rightarrow> tensor3" where
  "example_forward model ids attn_mask =
     \<lparr>dim0 = irows ids, dim1 = icols ids, dim2 = 2,
      at3 = (\<lambda>b t e. real_of_int (iat ids b t) + real e)\<rparr>"

text \<open>
  Modelled from the spec: the constructor of the encoder fails on a non-divisible
  configuration, \<open>embed_dim\<close> not a multiple of \<open>num_heads\<close> (the encoder class behind
  \<^verbatim>\<open>ProtX\<close> belongs to a library, not to the sources).  The file system of the example
  holds one checkpoint, at \<^verbatim>\<open>model.safetensors\<close>; loading the weights succeeds.
\<close>

definition example_env :: "state_dict \<Rightarrow> unit collaborators" where
  "example_env state_dict =
     \<lparr>load_file = [''model.safetensors'' \<mapsto> state_dict],
      ProtX_init = (\<lambda>embed_dim num_layers num_heads mlp_activation.
         if 0 < num_heads \<and> embed_dim mod num_heads = 0 then Some () else None),
      load_state_dict = (\<lambda>model state_dict. Some model),
      batch_encode_plus = example_batch_encode_plus,
      forward = example_forward\<rparr>"

section \<open>Strings\<close>

lemma starts_with_prefix: "starts_with p s = prefix p s"
  by (induction p s rule: starts_with.induct) auto

lemma str_contains_sublist: "str_contains p s = sublist p s"
  by (induction s) (auto simp: starts_with_prefix sublist_Cons_right)

lemma split_on_nonempty: "split_on c s \<noteq> []"
  by (induction s) (auto split: list.splits)

lemma split_on_append: "split_on c (a @ c # b) = split_on c a @ split_on c b"
  by (induction a) (auto split: list.splits simp: split_on_nonempty)

lemma split_on_no_sep: "c \<notin> set s \<Longrightarrow> split_on c s = [s]"
  by (induction s) (auto split: list.splits)

lemma py_int_0: "py_int ''0'' = Some 0"
  by (simp add: py_int_def strip_space_def int_space_def is_digit_def digit_val_def
      int_max_str_digits_def)

lemma int_body_digit_limit:
  "int_max_str_digits < length (filter is_digit s) \<Longrightarrow> int_body s = None"
  by (cases s) simp_all

lemma filter_is_digit_strip_space: "filter is_digit (strip_space s) = filter is_digit s"
proof -
  have drop: "filter is_digit (dropWhile int_space t) = filter is_digit t" for t
    by (induction t) (auto simp: is_digit_def int_space_def)
  have "filter is_digit (strip_space s) = rev (filter is_digit (dropWhile int_space (rev (dropWhile int_space s))))"
    by (simp add: strip_space_def rev_filter)
  also have "\<dots> = rev (filter is_digit (rev (dropWhile int_space s)))"
    by (simp only: drop)
  also have "\<dots> = filter is_digit (dropWhile int_space s)"
    by (simp add: rev_filter)
  finally show ?thesis
    by (simp only: drop)
qed

lemma py_int_digit_limit:
  assumes "int_max_str_digits < length (filter is_digit s)"
  shows "py_int s = None"
proof (cases "strip_space s")
  case Nil
  then show ?thesis by (simp add: py_int_def)
next
  case (Cons c cs)
  have len: "int_max_str_digits < length (filter is_digit (c # cs))"
    using assms filter_is_digit_strip_space [of s] Cons by simp
  show ?thesis
  proof (cases "c = CHR ''-'' \<or> c = CHR ''+''")
    case True
    then have "filter is_digit (c # cs) = filter is_digit cs"
      by (auto simp: is_digit_def)
    then have "int_body cs = None"
      using len int_body_digit_limit by simp
    then show ?thesis
      using True by (auto simp: py_int_def Cons)
  next
    case False
    then show ?thesis
      using len int_body_digit_limit [of "c # cs"] by (simp add: py_int_def Cons)
  qed
qed

lemma py_int_4301_digits: "py_int (replicate 4301 CHR ''1'') = None"
  by (rule py_int_digit_limit) (simp add: int_max_str_digits_def is_digit_def)

section \<open>The layer count\<close>

lemma scan_parts_union: "scan_parts ps acc = acc \<union> scan_parts ps {}"
proof (induction ps arbitrary: acc)
  case Nil
  show ?case by simp
next
  case (Cons p ps)
  show ?case
  proof (cases ps)
    case Nil
    then show ?thesis by simp
  next
    case (Cons q qs)
    define new where
      "new = (if p = ''layers'' then (case py_int q of None \<Rightarrow> {} | Some i \<Rightarrow> {i}) else {})"
    have a: "scan_parts (p # ps) acc = scan_parts ps (acc \<union> new)"
      by (simp add: Cons new_def split: option.splits)
    have b: "scan_parts (p # ps) {} = scan_parts ps new"
      by (simp add: Cons new_def split: option.splits)
    have "scan_parts ps (acc \<union> new) = (acc \<union> new) \<union> scan_parts ps {}"
      by (rule Cons.IH)
    moreover have "scan_parts ps new = new \<union> scan_parts ps {}"
      by (rule Cons.IH)
    ultimately show ?thesis
      using a b by auto
  qed
qed

lemma scan_parts_Cons2:
  "scan_parts (p # q # qs) {} =
     (if p = ''layers'' then (case py_int q of None \<Rightarrow> {} | Some i \<Rightarrow> {i}) else {})
       \<union> scan_parts (q # qs) {}"
  using scan_parts_union[of "q # qs" "case py_int q of None \<Rightarrow> {} | Some i \<Rightarrow> {i}"]
  by (simp split: option.splits)

lemma scan_parts_set:
  "scan_parts ps {} =
     {i. \<exists>n. Suc n < length ps \<and> ps ! n = ''layers'' \<and> py_int (ps ! Suc n) = Some i}"
proof (induction ps)
  case Nil
  show ?case by simp
next
  case (Cons p ps)
  show ?case
  proof (cases ps)
    case Nil
    then show ?thesis by simp
  next
    case c: (Cons q qs)
    let ?new = "if p = ''layers'' then (case py_int q of None \<Rightarrow> {} | Some i \<Rightarrow> {i}) else {}"
    let ?P = "\<lambda>xs i n. Suc n < length xs \<and> xs ! n = ''layers'' \<and> py_int (xs ! Suc n) = Some i"
    have step: "(\<exists>n. ?P (p # ps) i n) \<longleftrightarrow> ?P (p # ps) i 0 \<or> (\<exists>n. ?P ps i n)" for i
    proof
      assume "\<exists>n. ?P (p # ps) i n"
      then obtain n where n: "?P (p # ps) i n" ..
      show "?P (p # ps) i 0 \<or> (\<exists>n. ?P ps i n)"
      proof (cases n)
        case 0
        with n show ?thesis by simp
      next
        case (Suc m)
        with n have "?P ps i m" by simp
        then show ?thesis by blast
      qed
    next
      assume "?P (p # ps) i 0 \<or> (\<exists>n. ?P ps i n)"
      then show "\<exists>n. ?P (p # ps) i n"
      proof
        assume "?P (p # ps) i 0"
        then show ?thesis by blast
      next
        assume "\<exists>n. ?P ps i n"
        then obtain n where "?P ps i n" ..
        then have "?P (p # ps) i (Suc n)" by simp
        then show ?thesis by blast
      qed
    qed
    have new: "i \<in> ?new \<longleftrightarrow> ?P (p # ps) i 0" for i
      by (auto simp: c split: option.splits)
    have "scan_parts (p # ps) {} = ?new \<union> scan_parts ps {}"
      unfolding c by (rule scan_parts_Cons2)
    then show ?thesis
      unfolding Cons.IH using step new by blast
  qed
qed

lemma scan_keys_union: "scan_keys ks acc = acc \<union> scan_keys ks {}"
proof (induction ks arbitrary: acc)
  case Nil
  show ?case by simp
next
  case (Cons k ks)
  define new where
    "new = (if str_contains ''model.layers.'' k then scan_parts (split_on CHR ''.'' k) {} else {})"
  have a: "scan_keys (k # ks) acc = scan_keys ks (acc \<union> new)"
    using scan_parts_union[of "split_on CHR ''.'' k" acc] by (simp add: new_def)
  have b: "scan_keys (k # ks) {} = scan_keys ks new"
    by (simp add: new_def)
  have "scan_keys ks (acc \<union> new) = (acc \<union> new) \<union> scan_keys ks {}"
    by (rule Cons.IH)
  moreover have "scan_keys ks new = new \<union> scan_keys ks {}"
    by (rule Cons.IH)
  ultimately show ?case
    using a b by auto
qed

lemma scan_keys_Cons:
  "scan_keys (k # ks) {} =
     (if str_contains ''model.layers.'' k then scan_parts (split_on CHR ''.'' k) {} else {})
       \<union> scan_keys ks {}"
  using scan_keys_union[of ks "scan_parts (split_on CHR ''.'' k) {}"] by simp

lemma scan_keys_set:
  "scan_keys ks {} =
     (\<Union>k \<in> {k \<in> set ks. str_contains ''model.layers.'' k}. scan_parts (split_on CHR ''.'' k) {})"
proof (induction ks)
  case Nil
  show ?case by simp
next
  case (Cons a ks)
  show ?case
    unfolding scan_keys_Cons Cons.IH by auto
qed

lemma layer_indices_eq: "layer_indices sd = indices_after_layers sd"
  unfolding layer_indices_def indices_after_layers_def scan_keys_set scan_parts_set
  by auto

lemma finite_scan_parts: "finite acc \<Longrightarrow> finite (scan_parts ps acc)"
  by (induction ps acc rule: scan_parts.induct) (auto split: option.splits)

lemma finite_scan_keys: "finite acc \<Longrightarrow> finite (scan_keys ks acc)"
  by (induction ks arbitrary: acc) (auto simp: finite_scan_parts)

lemma finite_layer_indices: "finite (layer_indices sd)"
  by (simp add: layer_indices_def finite_scan_keys)

lemma card_layer_indices_0: "card (layer_indices sd) = 0 \<longleftrightarrow> layer_indices sd = {}"
  by (simp add: finite_layer_indices)

lemma scan_parts_layers_0: "0 \<in> scan_parts (xs @ ''layers'' # ''0'' # ys) acc"
proof (induction xs arbitrary: acc)
  case Nil
  have "scan_parts (''layers'' # ''0'' # ys) acc = scan_parts (''0'' # ys) (insert 0 acc)"
    by (simp add: py_int_0)
  also have "\<dots> = insert 0 acc \<union> scan_parts (''0'' # ys) {}"
    by (rule scan_parts_union)
  finally show ?case by simp
next
  case (Cons x xs)
  obtain z zs where z: "xs @ ''layers'' # ''0'' # ys = z # zs"
    by (cases xs) auto
  define acc' where
    "acc' = (if x = ''layers'' then (case py_int z of None \<Rightarrow> acc | Some i \<Rightarrow> insert i acc)
             else acc)"
  have "scan_parts (x # z # zs) acc = scan_parts (z # zs) acc'"
    by (simp add: acc'_def)
  moreover have "0 \<in> scan_parts (z # zs) acc'"
    using Cons.IH[of acc'] by (simp only: z)
  ultimately show ?case
    by (simp only: append_Cons z)
qed

lemma layer_0_key:
  assumes "sublist ''model.layers.0.'' key"
  shows "str_contains ''model.layers.'' key"
    and "0 \<in> scan_parts (split_on CHR ''.'' key) {}"
proof -
  obtain ps ss where key: "key = ps @ ''model.layers.0.'' @ ss"
    using assms unfolding sublist_def by blast
  have "key = ps @ ''model.layers.'' @ (''0.'' @ ss)"
    by (simp add: key)
  then show "str_contains ''model.layers.'' key"
    unfolding str_contains_sublist by (metis sublist_appendI)
  have "key = (ps @ ''model'') @ CHR ''.'' # (''layers'' @ CHR ''.'' # (''0'' @ CHR ''.'' # ss))"
    by (simp add: key)
  then have "split_on CHR ''.'' key =
      split_on CHR ''.'' (ps @ ''model'') @ ''layers'' # ''0'' # split_on CHR ''.'' ss"
    by (simp only: split_on_append) (simp add: split_on_no_sep)
  then show "0 \<in> scan_parts (split_on CHR ''.'' key) {}"
    by (simp only: scan_parts_layers_0)
qed

lemma layer_0_entry:
  assumes "(key, shp) \<in> set sd" and "sublist ''model.layers.0.'' key"
  shows "0 \<in> layer_indices sd"
proof -
  have "key \<in> {k \<in> set (map fst sd). str_contains ''model.layers.'' k}"
    using assms layer_0_key(1) by force
  then show ?thesis
    unfolding layer_indices_def scan_keys_set using layer_0_key(2)[OF assms(2)] by blast
qed

lemma Wqkv_key_layer_0: "str_contains ''model.layers.0.attn.Wqkv.weight'' key \<Longrightarrow> sublist ''model.layers.0.'' key"
proof -
  assume "str_contains ''model.layers.0.attn.Wqkv.weight'' key"
  then obtain ps ss where "key = ps @ ''model.layers.0.attn.Wqkv.weight'' @ ss"
    unfolding str_contains_sublist sublist_def by blast
  then have "key = ps @ ''model.layers.0.'' @ (''attn.Wqkv.weight'' @ ss)"
    by simp
  then show ?thesis
    by (metis sublist_appendI)
qed

section \<open>The loops as first matches\<close>

lemma find_first: "\<forall>x \<in> set pre. \<not> P x \<Longrightarrow> P y \<Longrightarrow> find P (pre @ y # rest) = Some y"
  by (induction pre) auto

lemma find_embed_dim_find:
  "find_embed_dim sd =
     (case find embed_dim_key sd of
        None \<Rightarrow> Inr None
      | Some (key, shp) \<Rightarrow>
          (case unpack2 shp of
             None \<Rightarrow> Inl ShapeUnpackError
           | Some (a, b) \<Rightarrow>
               Inr (Some (if str_contains ''embeddings.tok_embeddings.weight'' key then b
                          else if str_contains ''model.layers.0.attn.Wo.weight'' key then a
                          else b))))"
  by (induction sd) (auto simp: embed_dim_key_def split: option.splits)

lemma num_heads_from_Wqkv_find:
  "num_heads_from_Wqkv E sd =
     (case find Wqkv_key sd of
        None \<Rightarrow> Inr None
      | Some (key, shp) \<Rightarrow>
          (case unpack2 shp of
             None \<Rightarrow> Inl ShapeUnpackError
           | Some (qkv_dim, model_dim) \<Rightarrow>
               Inr (if qkv_dim = 3 * E then heads_of_embed_dim E else None)))"
  by (induction sd) (auto simp: Wqkv_key_def split: option.splits)

lemma first_possible_heads_find: "first_possible_heads hs E = find (\<lambda>h. E mod h = 0) hs"
  by (induction hs) auto

lemma first_possible_heads_None:
  "first_possible_heads hs E = None \<longleftrightarrow> (\<forall>h \<in> set hs. E mod h \<noteq> 0)"
  by (induction hs) auto

lemma find_Wqkv_layer_0:
  assumes "find Wqkv_key sd = Some (key, shp)"
  shows "card (layer_indices sd) \<noteq> 0"
proof -
  from assms have "(key, shp) \<in> set sd" and "Wqkv_key (key, shp)"
    by (auto simp: find_Some_iff in_set_conv_nth)
  then have "0 \<in> layer_indices sd"
    using layer_0_entry Wqkv_key_layer_0 by (simp add: Wqkv_key_def)
  then show ?thesis
    by (auto simp: card_layer_indices_0)
qed

section \<open>The example tables, evaluated\<close>

lemmas table_eval =
  layer_indices_def py_int_def strip_space_def int_space_def is_digit_def digit_val_def
  int_max_str_digits_def

lemma layer_indices_four_layer_table: "layer_indices four_layer_table = {0, 1, 2, 3}"
  by (simp add: four_layer_table_def table_eval insert_commute)

lemma layer_indices_sparse_table: "layer_indices sparse_table = {0, 2}"
  by (simp add: sparse_table_def table_eval insert_commute)

lemma layer_indices_one_layer_table: "layer_indices one_layer_table = {0}"
  by (simp add: one_layer_table_def table_eval)

lemma layer_indices_negative_index_table: "layer_indices negative_index_table = {- 1, 0}"
  by (simp add: negative_index_table_def table_eval insert_commute)

lemma layer_indices_no_layer_table: "layer_indices no_layer_table = {}"
  by (simp add: no_layer_table_def table_eval)

lemma inspect_four_layer_table: "inspect_state_dict four_layer_table = Inr (768, 4, 12)"
  unfolding inspect_state_dict_def layer_indices_four_layer_table
  by (simp add: four_layer_table_def heads_of_embed_dim_def)

lemma inspect_sparse_table: "inspect_state_dict sparse_table = Inr (100, 2, 20)"
  unfolding inspect_state_dict_def layer_indices_sparse_table
  by (simp add: sparse_table_def heads_of_embed_dim_def)

lemma inspect_one_layer_table: "inspect_state_dict one_layer_table = Inr (64, 1, 1)"
  unfolding inspect_state_dict_def layer_indices_one_layer_table
  by (simp add: one_layer_table_def heads_of_embed_dim_def)

lemma inspect_negative_index_table: "inspect_state_dict negative_index_table = Inr (64, 2, 1)"
  unfolding inspect_state_dict_def layer_indices_negative_index_table
  by (simp add: negative_index_table_def heads_of_embed_dim_def)

lemma inspect_no_layer_table:
  "inspect_state_dict no_layer_table = Inl (ArchitectureInferenceError NumLayers)"
  unfolding inspect_state_dict_def layer_indices_no_layer_table
  by (simp add: no_layer_table_def)

section \<open>The claims\<close>

text \<open>
  C3, as the code has it.  For every parameter table (its keys being strings of code
  points below 256), the number of layers is the cardinality of the set of the integers
  that \<^verbatim>\<open>int\<close> reads after a part \<^verbatim>\<open>layers\<close> in the keys containing \<^verbatim>\<open>model.layers.\<close>,
  negative ones included, and not the largest index plus one; a part that \<^verbatim>\<open>int\<close> rejects
  adds nothing and raises nothing.  Once \<open>embed_dim\<close> was found, the inspection fails with
  the error that names \<open>num_layers\<close> exactly when that set is empty; when it is not empty,
  the inspection returns \<open>embed_dim\<close> and the cardinality of the set, unless the later
  search for \<open>num_heads\<close> fails (a shape that does not unpack, or no head count found).
\<close>

theorem num_layers_is_cardinality:
  "layer_indices sd = indices_after_layers sd
   \<and> (inspect_state_dict sd = Inr (e, l, h) \<longrightarrow> l = card (indices_after_layers sd))
   \<and> (find_embed_dim sd = Inr (Some E) \<longrightarrow>
        (inspect_state_dict sd = Inl (ArchitectureInferenceError NumLayers)
           \<longleftrightarrow> indices_after_layers sd = {})
        \<and> (indices_after_layers sd \<noteq> {} \<longrightarrow>
             inspect_state_dict sd = Inl ShapeUnpackError
             \<or> inspect_state_dict sd = Inl (ArchitectureInferenceError NumHeads)
             \<or> (\<exists>n. inspect_state_dict sd = Inr (E, card (indices_after_layers sd), n))))"
proof -
  have eq: "layer_indices sd = indices_after_layers sd"
    by (rule layer_indices_eq)
  have c0: "card (indices_after_layers sd) = 0 \<longleftrightarrow> indices_after_layers sd = {}"
    using card_layer_indices_0 [of sd] unfolding eq .
  have ret: "l = card (indices_after_layers sd)" if "inspect_state_dict sd = Inr (e, l, h)"
    using that unfolding inspect_state_dict_def eq
    by (auto simp: Let_def split: sum.splits option.splits if_splits)
  have heads: "num_heads_from_Wqkv E sd = Inl err \<Longrightarrow> err = ShapeUnpackError" for err
    unfolding num_heads_from_Wqkv_find by (auto split: option.splits)
  have stage: "(inspect_state_dict sd = Inl (ArchitectureInferenceError NumLayers)
           \<longleftrightarrow> indices_after_layers sd = {})
        \<and> (indices_after_layers sd \<noteq> {} \<longrightarrow>
             inspect_state_dict sd = Inl ShapeUnpackError
             \<or> inspect_state_dict sd = Inl (ArchitectureInferenceError NumHeads)
             \<or> (\<exists>n. inspect_state_dict sd = Inr (E, card (indices_after_layers sd), n)))"
    if fe: "find_embed_dim sd = Inr (Some E)"
    unfolding inspect_state_dict_def eq fe using c0 heads
    by (auto simp: Let_def split: sum.splits option.splits)
  show ?thesis
    using eq ret stage by blast
qed

theorem num_layers_is_cardinality_witness:
  "inspect_state_dict four_layer_table = Inr (768, 4, 12)
   \<and> card (indices_after_layers four_layer_table) = 4
   \<and> inspect_state_dict sparse_table = Inr (100, 2, 20)
   \<and> card (indices_after_layers sparse_table) = 2
   \<and> find_embed_dim one_layer_table = Inr (Some 64)
   \<and> indices_after_layers one_layer_table = {0}
   \<and> inspect_state_dict one_layer_table = Inr (64, 1, 1)
   \<and> inspect_state_dict one_layer_table \<noteq> Inl (ArchitectureInferenceError NumLayers)
   \<and> find_embed_dim no_layer_table = Inr (Some 64)
   \<and> indices_after_layers no_layer_table = {}
   \<and> inspect_state_dict no_layer_table = Inl (ArchitectureInferenceError NumLayers)"
  using num_layers_is_cardinality [of four_layer_table 768 4 12]
    num_layers_is_cardinality [of sparse_table 100 2 20]
    num_layers_is_cardinality [of one_layer_table 64 1 1 64]
    num_layers_is_cardinality [of no_layer_table 0 0 0 64]
    inspect_four_layer_table inspect_sparse_table inspect_one_layer_table
    layer_indices_one_layer_table layer_indices_no_layer_table
  by (simp add: no_layer_table_def one_layer_table_def)

text \<open>
  C3 as stated fails: the index \<open>-1\<close> is counted, so the table below has two layers for
  the code and one non-negative index.
\<close>

theorem num_layers_nonneg_counterexample:
  "inspect_state_dict negative_index_table = Inr (64, 2, 1)
   \<and> nonneg_indices_after_layers negative_index_table = {0}
   \<and> card (nonneg_indices_after_layers negative_index_table) = 1"
proof -
  have "indices_after_layers negative_index_table = {- 1, 0}"
    using layer_indices_eq [of negative_index_table] layer_indices_negative_index_table by simp
  then have "nonneg_indices_after_layers negative_index_table = {0}"
    unfolding nonneg_indices_after_layers_def by auto
  then show ?thesis
    using inspect_negative_index_table by simp
qed

section \<open>The head count\<close>

lemma heads_of_embed_dim_rule: "heads_of_embed_dim E = first_satisfied_rule E"
  by (simp add: heads_of_embed_dim_def first_satisfied_rule_def first_possible_heads_find)

lemma inspect_state_dict_stages:
  assumes "find_embed_dim sd = Inr (Some E)" and "layer_indices sd \<noteq> {}"
  shows "inspect_state_dict sd =
     (case num_heads_from_Wqkv E sd of
        Inl err \<Rightarrow> Inl err
      | Inr (Some h) \<Rightarrow> Inr (E, card (layer_indices sd), h)
      | Inr None \<Rightarrow>
          (case num_heads_from_query E sd of
             None \<Rightarrow> Inl (ArchitectureInferenceError NumHeads)
           | Some h \<Rightarrow> Inr (E, card (layer_indices sd), h)))"
  using assms card_layer_indices_0 [of sd]
  by (simp add: inspect_state_dict_def Let_def split: sum.splits option.splits)

lemma find_Wqkv_layers: "find Wqkv_key sd = Some (key, shp) \<Longrightarrow> layer_indices sd \<noteq> {}"
  using find_Wqkv_layer_0 [of sd key shp] by auto

lemma layer_indices_width_96_table: "layer_indices width_96_table = {0}"
  by (simp add: width_96_table_def table_eval)

lemma layer_indices_two_Wqkv_table: "layer_indices two_Wqkv_table = {0}"
  by (simp add: two_Wqkv_table_def table_eval)

text \<open>
  C1, as the code has it.  For every parameter table from which \<open>embed_dim\<close> was inferred
  and in which the first key, in iteration order, that contains
  \<^verbatim>\<open>model.layers.0.attn.Wqkv.weight\<close> has the shape \<open>[3 * embed_dim, model_dim]\<close>, the
  inspection returns the head count of the first satisfied rule, in the order: divisible
  by 64, by 32, by 128, then the first of 8, 12, 16, 20, 24, 32 that divides \<open>embed_dim\<close>.
\<close>

theorem num_heads_by_first_rule:
  "find_embed_dim sd = Inr (Some E)
   \<and> find Wqkv_key sd = Some (key, [3 * E, model_dim])
   \<and> first_satisfied_rule E = Some h
   \<longrightarrow> inspect_state_dict sd = Inr (E, card (layer_indices sd), h)"
proof (intro impI, elim conjE)
  assume fe: "find_embed_dim sd = Inr (Some E)"
    and fw: "find Wqkv_key sd = Some (key, [3 * E, model_dim])"
    and rule: "first_satisfied_rule E = Some h"
  have "num_heads_from_Wqkv E sd = Inr (Some h)"
    by (simp add: num_heads_from_Wqkv_find fw heads_of_embed_dim_rule rule)
  then show "inspect_state_dict sd = Inr (E, card (layer_indices sd), h)"
    by (simp add: inspect_state_dict_stages [OF fe find_Wqkv_layers [OF fw]])
qed

theorem num_heads_by_first_rule_witness:
  "inspect_state_dict four_layer_table = Inr (768, 4, 12)
   \<and> inspect_state_dict width_96_table = Inr (96, 1, 3)
   \<and> inspect_state_dict sparse_table = Inr (100, 2, 20)"
  using num_heads_by_first_rule [of four_layer_table 768 "''model.layers.0.attn.Wqkv.weight''" 768 12]
    num_heads_by_first_rule [of width_96_table 96 "''model.layers.0.attn.Wqkv.weight''" 96 3]
    num_heads_by_first_rule [of sparse_table 100 "''model.layers.0.attn.Wqkv.weight''" 100 20]
    layer_indices_four_layer_table layer_indices_width_96_table layer_indices_sparse_table
  by (simp add: four_layer_table_def width_96_table_def sparse_table_def Wqkv_key_def
      first_satisfied_rule_def)

text \<open>
  C1 as stated fails: the table below contains the key \<^verbatim>\<open>model.layers.0.attn.Wqkv.weight\<close>
  with the shape \<open>[2304, 768]\<close> and has \<open>embed_dim = 768\<close>, yet no head count is chosen,
  because an earlier key contains the same pattern and has another shape.
\<close>

theorem later_Wqkv_key_counterexample:
  "(''model.layers.0.attn.Wqkv.weight'', [2304, 768]) \<in> set two_Wqkv_table
   \<and> find_embed_dim two_Wqkv_table = Inr (Some 768)
   \<and> (2304 :: nat) = 3 * 768
   \<and> first_satisfied_rule 768 = Some 12
   \<and> inspect_state_dict two_Wqkv_table = Inl (ArchitectureInferenceError NumHeads)"
proof -
  have "inspect_state_dict two_Wqkv_table = Inl (ArchitectureInferenceError NumHeads)"
    unfolding inspect_state_dict_def layer_indices_two_Wqkv_table
    by (simp add: two_Wqkv_table_def lower_def lower_char_def upper_chars_def lower_chars_def)
  then show ?thesis
    by (simp add: two_Wqkv_table_def first_satisfied_rule_def)
qed

section \<open>The embedding width\<close>

lemma find_embed_dim_first:
  assumes "\<forall>entry \<in> set pre. \<not> embed_dim_key entry"
    and "str_contains ''embeddings.tok_embeddings.weight'' key"
  shows "find_embed_dim (pre @ (key, [V, E]) # rest) = Inr (Some E)"
proof -
  have "embed_dim_key (key, [V, E])"
    using assms(2) by (simp add: embed_dim_key_def)
  then have "find embed_dim_key (pre @ (key, [V, E]) # rest) = Some (key, [V, E])"
    using assms(1) by (simp add: find_first)
  then show ?thesis
    using assms(2) by (simp add: find_embed_dim_find)
qed

lemma inspect_state_dict_results:
  assumes "find_embed_dim sd = Inr (Some E)"
  shows "inspect_state_dict sd = Inl (ArchitectureInferenceError NumLayers)
     \<or> inspect_state_dict sd = Inl ShapeUnpackError
     \<or> inspect_state_dict sd = Inl (ArchitectureInferenceError NumHeads)
     \<or> (\<exists>l h. inspect_state_dict sd = Inr (E, l, h))"
proof -
  have heads: "num_heads_from_Wqkv E sd = Inl err \<Longrightarrow> err = ShapeUnpackError" for err
    unfolding num_heads_from_Wqkv_find by (auto split: option.splits)
  show ?thesis
    unfolding inspect_state_dict_def assms using heads
    by (auto simp: Let_def split: sum.splits option.splits)
qed

lemma layer_indices_tok_first_table: "layer_indices tok_first_table = {0}"
  by (simp add: tok_first_table_def table_eval)

lemma inspect_tok_first_table: "inspect_state_dict tok_first_table = Inr (128, 1, 2)"
  unfolding inspect_state_dict_def layer_indices_tok_first_table
  by (simp add: tok_first_table_def heads_of_embed_dim_def)

lemma layer_indices_Wo_first_table: "layer_indices Wo_first_table = {0}"
  by (simp add: Wo_first_table_def table_eval)

text \<open>
  C2, as the code has it.  For every parameter table whose first entry, in iteration
  order, that matches one of the three rules of the \<open>embed_dim\<close> loop has a key containing
  \<^verbatim>\<open>embeddings.tok_embeddings.weight\<close> and the shape \<open>[V, E]\<close>, the inferred \<open>embed_dim\<close> is
  \<open>E\<close>, whatever entries follow: the inspection returns \<open>E\<close> as \<open>embed_dim\<close>, unless a later
  stage (the layer count or the head count) fails.
\<close>

theorem embed_dim_of_first_match:
  "(\<forall>entry \<in> set pre. \<not> embed_dim_key entry)
   \<and> str_contains ''embeddings.tok_embeddings.weight'' key
   \<and> sd = pre @ (key, [V, E]) # rest
   \<longrightarrow> find_embed_dim sd = Inr (Some E)
     \<and> (inspect_state_dict sd = Inl (ArchitectureInferenceError NumLayers)
        \<or> inspect_state_dict sd = Inl ShapeUnpackError
        \<or> inspect_state_dict sd = Inl (ArchitectureInferenceError NumHeads)
        \<or> (\<exists>l h. inspect_state_dict sd = Inr (E, l, h)))"
  using find_embed_dim_first [of pre key V E rest]
    inspect_state_dict_results [of "pre @ (key, [V, E]) # rest" E]
  by blast

theorem embed_dim_of_first_match_witness:
  "find_embed_dim tok_first_table = Inr (Some 128)
   \<and> inspect_state_dict tok_first_table = Inr (128, 1, 2)"
  using embed_dim_of_first_match [of "[(''proj.weight'', [1024, 128])]"
      "''model.embeddings.tok_embeddings.weight''" tok_first_table 30 128
      "[(''model.layers.0.attn.Wo.weight'', [64, 64]),
        (''model.layers.0.attn.Wqkv.weight'', [384, 128])]"]
    inspect_tok_first_table
  by (simp add: tok_first_table_def embed_dim_key_def)

text \<open>
  C2 as stated fails: the table below contains a key with
  \<^verbatim>\<open>embeddings.tok_embeddings.weight\<close> of shape \<open>[30, 128]\<close>, and the inspection returns
  \<open>embed_dim = 64\<close>, read from the attention output weight that comes first.
\<close>

theorem earlier_Wo_key_counterexample:
  "(''model.embeddings.tok_embeddings.weight'', [30, 128]) \<in> set Wo_first_table
   \<and> str_contains ''embeddings.tok_embeddings.weight'' ''model.embeddings.tok_embeddings.weight''
   \<and> inspect_state_dict Wo_first_table = Inr (64, 1, 1)"
proof -
  have "inspect_state_dict Wo_first_table = Inr (64, 1, 1)"
    unfolding inspect_state_dict_def layer_indices_Wo_first_table
    by (simp add: Wo_first_table_def heads_of_embed_dim_def)
  then show ?thesis
    by (simp add: Wo_first_table_def)
qed

section \<open>The fallback\<close>




lemmas lower_eval = lower_def lower_char_def upper_chars_def lower_chars_def




section \<open>Failures of the inspection in the generator\<close>





section \<open>Errors in the generator\<close>

lemma layer_indices_query_only_table: "layer_indices query_only_table = {0}"
  by (simp add: query_only_table_def table_eval)

lemma inspect_query_only_table: "inspect_state_dict query_only_table = Inr (100, 1, 3)"
  unfolding inspect_state_dict_def layer_indices_query_only_table
  by (simp add: query_only_table_def lower_eval)

text \<open>
  C6, what the code does.  An error of the inspection (the checkpoint does not load, or a
  scalar is not determined) is caught: the generator prints it, yields nothing and raises
  nothing; so is an error of the weight loading.  The constructor of the encoder is
  called between the two guarded steps, outside any \<^verbatim>\<open>try\<close>: when it fails, the exception
  reaches the caller of the generator.
\<close>

theorem constructor_error_propagates:
  "(inspect_checkpoint_architecture (load_file env) checkpoint_path = Inl err \<longrightarrow>
      load_and_generate_embeddings env checkpoint_path sequences batch_size max_length
          per_seq_embeddings mlp_activation
        = \<lparr>yielded = [], printed = [ErrorDetecting err], raised = None\<rparr>)
   \<and> (inspect_checkpoint_architecture (load_file env) checkpoint_path
         = Inr (embed_dim, num_layers, num_heads)
       \<and> ProtX_init env embed_dim num_layers num_heads mlp_activation = None \<longrightarrow>
      load_and_generate_embeddings env checkpoint_path sequences batch_size max_length
          per_seq_embeddings mlp_activation
        = \<lparr>yielded = [], printed = [Detected embed_dim num_layers num_heads],
           raised = Some EncoderConstructionError\<rparr>)
   \<and> (inspect_checkpoint_architecture (load_file env) checkpoint_path
         = Inr (embed_dim, num_layers, num_heads)
       \<and> ProtX_init env embed_dim num_layers num_heads mlp_activation = Some model
       \<and> Option.bind (load_file env checkpoint_path) (load_state_dict env model) = None \<longrightarrow>
      load_and_generate_embeddings env checkpoint_path sequences batch_size max_length
          per_seq_embeddings mlp_activation
        = \<lparr>yielded = [], printed = [Detected embed_dim num_layers num_heads, ErrorLoading],
           raised = None\<rparr>)"
  by (simp add: load_and_generate_embeddings_def)

theorem constructor_error_propagates_witness:
  "inspect_checkpoint_architecture (load_file (example_env query_only_table)) ''model.safetensors''
     = Inr (100, 1, 3)
   \<and> load_and_generate_embeddings (example_env query_only_table) ''model.safetensors''
        [''MKV'', ''M''] 32 512 True ''swiglu''
      = \<lparr>yielded = [], printed = [Detected 100 1 3], raised = Some EncoderConstructionError\<rparr>
   \<and> load_and_generate_embeddings (example_env no_layer_table) ''model.safetensors''
        [''MKV'', ''M''] 32 512 True ''swiglu''
      = \<lparr>yielded = [], printed = [ErrorDetecting (ArchitectureInferenceError NumLayers)],
         raised = None\<rparr>
   \<and> load_and_generate_embeddings (example_env one_layer_table) ''missing.safetensors''
        [''MKV'', ''M''] 32 512 True ''swiglu''
      = \<lparr>yielded = [], printed = [ErrorDetecting CheckpointLoadError], raised = None\<rparr>
   \<and> load_and_generate_embeddings
        ((example_env one_layer_table)\<lparr>load_state_dict := (\<lambda>model state_dict. None)\<rparr>)
        ''model.safetensors'' [''MKV'', ''M''] 32 512 True ''swiglu''
      = \<lparr>yielded = [], printed = [Detected 64 1 1, ErrorLoading], raised = None\<rparr>"
  using constructor_error_propagates [of "example_env query_only_table" "''model.safetensors''"
      undefined "[''MKV'', ''M'']" 32 512 True "''swiglu''" 100 1 3 undefined]
    constructor_error_propagates [of "example_env no_layer_table" "''model.safetensors''"
      "ArchitectureInferenceError NumLayers" "[''MKV'', ''M'']" 32 512 True "''swiglu''"]
    constructor_error_propagates [of "example_env one_layer_table" "''missing.safetensors''"
      CheckpointLoadError "[''MKV'', ''M'']" 32 512 True "''swiglu''"]
    constructor_error_propagates
      [of "(example_env one_layer_table)\<lparr>load_state_dict := (\<lambda>model state_dict. None)\<rparr>"
        "''model.safetensors''" undefined "[''MKV'', ''M'']" 32 512 True "''swiglu''" 64 1 1 "()"]
    inspect_query_only_table inspect_no_layer_table inspect_one_layer_table
  by (simp add: inspect_checkpoint_architecture_def example_env_def)

end
